theory Spec2Isabelle
  imports Complex_Main
begin

section \<open>JavaScript numbers\<close>

text \<open>
  The program computes with JavaScript numbers. A finite number is modelled by the real
  it denotes (the rounding of IEEE doubles and the sign of zero are not modelled); the
  three special values that a division by zero produces are kept apart, since a HOL
  division by zero is silently 0 and the program's is not.
\<close>

datatype jsnum = Num real | PosInf | NegInf | NaN

text \<open>\<open>a / b\<close> on two finite numbers.\<close>

definition js_div :: "real \<Rightarrow> real \<Rightarrow> jsnum" where
  "js_div a b =
     (if b \<noteq> 0 then Num (a / b)
      else if 0 < a then PosInf
      else if a < 0 then NegInf
      else NaN)"

text \<open>\<open>a / b\<close> in general.\<close>

fun js_quot :: "jsnum \<Rightarrow> jsnum \<Rightarrow> jsnum" where
  "js_quot (Num a) (Num b) = js_div a b"
| "js_quot NaN _ = NaN"
| "js_quot _ NaN = NaN"
| "js_quot (Num a) PosInf = Num 0"
| "js_quot (Num a) NegInf = Num 0"
| "js_quot PosInf (Num b) = (if 0 \<le> b then PosInf else NegInf)"
| "js_quot NegInf (Num b) = (if 0 \<le> b then NegInf else PosInf)"
| "js_quot _ _ = NaN"

text \<open>\<open>a + b\<close>.\<close>

fun js_add :: "jsnum \<Rightarrow> jsnum \<Rightarrow> jsnum" where
  "js_add (Num a) (Num b) = Num (a + b)"
| "js_add NaN _ = NaN"
| "js_add _ NaN = NaN"
| "js_add PosInf NegInf = NaN"
| "js_add NegInf PosInf = NaN"
| "js_add PosInf _ = PosInf"
| "js_add _ PosInf = PosInf"
| "js_add NegInf _ = NegInf"
| "js_add _ NegInf = NegInf"

text \<open>\<open>a * c\<close> for a finite constant \<open>c\<close>.\<close>

fun js_scale :: "jsnum \<Rightarrow> real \<Rightarrow> jsnum" where
  "js_scale (Num a) c = Num (a * c)"
| "js_scale NaN c = NaN"
| "js_scale PosInf c = (if 0 < c then PosInf else if c < 0 then NegInf else NaN)"
| "js_scale NegInf c = (if 0 < c then NegInf else if c < 0 then PosInf else NaN)"

text \<open>\<open>Math.floor\<close>.\<close>

fun js_floor :: "jsnum \<Rightarrow> jsnum" where
  "js_floor (Num a) = Num (of_int \<lfloor>a\<rfloor>)"
| "js_floor v = v"

text \<open>\<open>a < c\<close> and \<open>a > c\<close> against a finite constant: false on NaN.\<close>

fun js_lt :: "jsnum \<Rightarrow> real \<Rightarrow> bool" where
  "js_lt (Num a) c = (a < c)"
| "js_lt NegInf c = True"
| "js_lt _ c = False"

fun js_gt :: "jsnum \<Rightarrow> real \<Rightarrow> bool" where
  "js_gt (Num a) c = (c < a)"
| "js_gt PosInf c = True"
| "js_gt _ c = False"

text \<open>\<open>Math.round\<close> on a finite number: to the nearest integer, halves upwards.\<close>

definition js_round :: "real \<Rightarrow> int" where
  "js_round a = \<lfloor>a + 1 / 2\<rfloor>"

text \<open>\<open>a >= c\<close> against a finite constant: false on NaN.\<close>

fun js_ge :: "jsnum \<Rightarrow> real \<Rightarrow> bool" where
  "js_ge (Num a) c = (c \<le> a)"
| "js_ge PosInf c = True"
| "js_ge _ c = False"

text \<open>\<open>Math.round\<close> in general: NaN and the infinities are returned as they are.\<close>

fun Math_round :: "jsnum \<Rightarrow> jsnum" where
  "Math_round (Num a) = Num (of_int (js_round a))"
| "Math_round v = v"

text \<open>
  \<open>Math.min\<close>: NaN as soon as one argument is NaN, else the least argument; without
  arguments it is positive infinity.
\<close>

fun js_min :: "jsnum \<Rightarrow> jsnum \<Rightarrow> jsnum" where
  "js_min NaN _ = NaN"
| "js_min _ NaN = NaN"
| "js_min NegInf _ = NegInf"
| "js_min _ NegInf = NegInf"
| "js_min PosInf b = b"
| "js_min a PosInf = a"
| "js_min (Num a) (Num b) = Num (min a b)"

definition Math_min :: "jsnum list \<Rightarrow> jsnum" where
  "Math_min xs = foldl js_min PosInf xs"


section \<open>Shared types (types.ts)\<close>

datatype WeatherStatus = SUNNY | CLOUDY | STORM

datatype Mode = TEST | CALIBRATION

text \<open>
  The issue tags and the user-facing texts are Chinese string constants in the source;
  each is represented by a constructor named after its meaning.
\<close>

datatype issue =
    PitchInstability   \<comment> \<open>vowel test, jitter above 2.5 percent\<close>
  | BreathInstability  \<comment> \<open>vowel test, shimmer above 10 percent\<close>
  | SemanticUnclear    \<comment> \<open>reading test, coherence below 70\<close>
  | ArmDrop            \<comment> \<open>stability test, drift above 15 degrees\<close>
  | RestingTremor      \<comment> \<open>stability test, tremor detected\<close>

datatype details =
    BaselineRecorded              \<comment> \<open>calibration: "baseline recorded"\<close>
  | VisualBelowBaseline | VisualMatchesBaseline
  | VisualSlightAsymmetry | VisualSymmetric
  | AudioIssues "issue list" | AudioAverage | AudioGood
  | TouchNormal | TouchIssues "issue list" | TouchPoorCoordination

text \<open>The raw calibration payload (\<open>raw?: any\<close>); only the mirror module builds one.\<close>

record VisualRaw =
  eyeSym :: jsnum
  mouthSym :: jsnum
  browSym :: jsnum

text \<open>
  \<open>MetricResult\<close>. The score is a number; the type parameter says which numbers a
  module can produce (the mirror module can produce NaN, the others floor a finite value).
\<close>

record 's MetricResult =
  score :: 's
  details :: details
  timestamp :: nat
  raw :: "VisualRaw option"

record BaselineData =
  b_visual :: "VisualRaw option"
  b_audio :: "(real \<times> real) option"
  b_touch :: "(real \<times> real) option"
  b_timestamp :: nat

text \<open>\<open>HistoryRecord\<close>, what \<open>saveRecord\<close> persists.\<close>

datatype RecordType = VISUAL | AUDIO | TOUCH

record 's HistoryRecord =
  h_type :: RecordType
  h_score :: 's
  h_details :: details
  h_timestamp :: nat
  h_snapshot :: "string option"

text \<open>What the end of a module's test does: the record it persists, the result it hands on.\<close>

record 's Completion =
  persisted :: "'s HistoryRecord option"
  completed :: "'s MetricResult"


section \<open>Risk aggregator (generateHealthReport)\<close>

text \<open>
  The scores of the day are JavaScript numbers: the mirror module can hand on NaN, the
  voice and the touch module hand on integers. \<open>asMetric\<close> is a result with an integer
  score as \<open>App.handleUpdate\<close> stores it in the state of the day.
\<close>

record UserHealthState =
  visual :: "jsnum MetricResult option"
  audio :: "jsnum MetricResult option"
  touch :: "jsnum MetricResult option"

definition asMetric :: "int MetricResult \<Rightarrow> jsnum MetricResult" where
  "asMetric m =
     \<lparr>score = Num (real_of_int (score m)), details = details m, timestamp = timestamp m,
      raw = raw m\<rparr>"

text \<open>
  The narrative service as the function meets it. \<open>getAIClient\<close> returns null without
  an API key (the first argument of \<open>generateHealthReport\<close> below is then \<open>None\<close>).
  With a client, \<open>generateContent\<close> either fails (the promise rejects, the text is empty,
  the text is not JSON: each ends in the \<open>catch\<close> block), or yields an object whose
  \<open>status\<close> and \<open>message\<close> are read.
\<close>

datatype ai_outcome = Rejected | EmptyText | Malformed | Reply string string

datatype mock_text = MockStable | MockCritical | MockSoSo | MockExcellent

datatype report_text =
    StartPrompt                 \<comment> \<open>no test performed yet\<close>
  | Demo mock_text bool         \<comment> \<open>demo mode; the flag: the "trend is good" suffix\<close>
  | AiMessage string            \<comment> \<open>\<open>result.message\<close>\<close>
  | ServiceConnecting           \<comment> \<open>the fallback text of the \<open>catch\<close> block\<close>

record Report =
  r_text :: report_text
  r_status :: WeatherStatus

definition validScores :: "UserHealthState \<Rightarrow> jsnum list" where
  "validScores healthState =
     (case visual healthState of Some m \<Rightarrow> [score m] | None \<Rightarrow> []) @
     (case audio healthState of Some m \<Rightarrow> [score m] | None \<Rightarrow> []) @
     (case touch healthState of Some m \<Rightarrow> [score m] | None \<Rightarrow> [])"

text \<open>\<open>Math.min(...validScores)\<close> and the comparison with 60 (false when the minimum is NaN).\<close>

definition lowestScore :: "jsnum list \<Rightarrow> jsnum" where
  "lowestScore scores = Math_min scores"

definition criticalIssue :: "jsnum list \<Rightarrow> bool" where
  "criticalIssue scores = js_lt (lowestScore scores) 60"

text \<open>The rounded average; a NaN average is replaced by 0.\<close>

definition currentAvg :: "jsnum list \<Rightarrow> jsnum" where
  "currentAvg scores =
     (let avg = Math_round (js_quot (foldl js_add (Num 0) scores) (Num (real (length scores))))
      in if avg = NaN then Num 0 else avg)"

text \<open>
  Whether \<open>improvementContext\<close> is a non-empty string. \<open>historyAvg\<close> is taken as a
  finite number; it only decides the wording of the demo text, never the status.
\<close>

definition improvementContext :: "BaselineData option \<Rightarrow> real \<Rightarrow> jsnum \<Rightarrow> bool" where
  "improvementContext baseline historyAvg avg =
     (baseline \<noteq> None \<and> (js_ge avg 90 \<or> (0 < historyAvg \<and> js_gt avg (historyAvg + 5))))"

definition mockReport :: "bool \<Rightarrow> jsnum \<Rightarrow> bool \<Rightarrow> Report" where
  "mockReport critical avg improving =
     (let (mockText, mockStatus) =
            (if critical then (MockCritical, STORM)
             else if js_lt avg 80 then (MockSoSo, CLOUDY)
             else if js_gt avg 90 then (MockExcellent, SUNNY)
             else (MockStable, SUNNY))
      in \<lparr>r_text = Demo mockText (\<not> critical \<and> improving), r_status = mockStatus\<rparr>)"

definition generateHealthReport ::
  "ai_outcome option \<Rightarrow> UserHealthState \<Rightarrow> BaselineData option \<Rightarrow> real \<Rightarrow> Report" where
  "generateHealthReport ai healthState baseline historyAvg =
     (let scores = validScores healthState in
      if scores = [] then \<lparr>r_text = StartPrompt, r_status = SUNNY\<rparr>
      else
        let avg = currentAvg scores;
            critical = criticalIssue scores;
            improving = improvementContext baseline historyAvg avg
        in case ai of
             None \<Rightarrow> mockReport critical avg improving
           | Some (Reply st msg) \<Rightarrow>
               (let status = SUNNY;
                    status = (if st = ''CLOUDY'' then CLOUDY else status);
                    status = (if st = ''STORM'' then STORM else status);
                    status = (if critical then STORM else status)
                in \<lparr>r_text = AiMessage msg, r_status = status\<rparr>)
           | Some _ \<Rightarrow> \<lparr>r_text = ServiceConnecting, r_status = CLOUDY\<rparr>)"


section \<open>Touch module: the composite score (TouchModule.analyze)\<close>

text \<open>
  \<open>coordinationScore\<close> is the spiral test's floored score (0 before it finished),
  \<open>stabilityScore\<close> the stability test's floored score. The two timestamps are the two
  readings of the clock, at \<open>saveRecord\<close> and one second later at \<open>onComplete\<close>.
\<close>

definition analyze ::
  "Mode \<Rightarrow> int \<Rightarrow> int \<Rightarrow> issue list \<Rightarrow> nat \<Rightarrow> nat \<Rightarrow> int Completion" where
  "analyze mode coordinationScore stabilityScore issues now later =
     (let totalScore = \<lfloor>real_of_int coordinationScore * 0.5 + real_of_int stabilityScore * 0.5\<rfloor>;
          totalScore = (if RestingTremor \<in> set issues then min totalScore 59 else totalScore)
      in if mode = CALIBRATION then
           \<lparr>persisted = None,
            completed = \<lparr>score = 100, details = BaselineRecorded, timestamp = now, raw = None\<rparr>\<rparr>
         else
           let details =
                 (if issues \<noteq> [] then TouchIssues issues
                  else if coordinationScore < 60 then TouchPoorCoordination
                  else TouchNormal)
           in \<lparr>persisted = Some \<lparr>h_type = TOUCH, h_score = totalScore, h_details = details,
                                 h_timestamp = now, h_snapshot = None\<rparr>,
               completed = \<lparr>score = totalScore, details = details, timestamp = later, raw = None\<rparr>\<rparr>)"


section \<open>Voice module: the vowel test (VowelTest.finishRecording)\<close>

text \<open>
  The two reduction loops of \<open>finishRecording\<close> have one shape: from index 1 on, add the
  absolute difference to the previous sample to one sum and the sample itself to the
  other. \<open>consecutiveSums\<close> is that loop; the accumulator is (difference sum, value sum).
\<close>

fun consecutiveSums :: "real list \<Rightarrow> real \<times> real \<Rightarrow> real \<times> real" where
  "consecutiveSums (prev # cur # rest) (diffSum, valSum) =
     consecutiveSums (cur # rest) (diffSum + \<bar>cur - prev\<bar>, valSum + cur)"
| "consecutiveSums _ acc = acc"

definition jitter :: "real list \<Rightarrow> jsnum" where
  "jitter pitches =
     (let (jitterSum, pitchSum) = consecutiveSums pitches (0, 0);
          avgPitch = js_div pitchSum (real (length pitches))
      in js_quot (js_div jitterSum (real_of_int (int (length pitches) - 1))) avgPitch)"

definition shimmer :: "real list \<Rightarrow> jsnum" where
  "shimmer amps =
     (let (shimmerSum, ampSum) = consecutiveSums amps (0, 0);
          avgAmp = js_div ampSum (real (length amps))
      in js_quot (js_div shimmerSum (real_of_int (int (length amps) - 1))) avgAmp)"

text \<open>The scoring block: the score starts at 100, the issue list empty.\<close>

definition vowelScoring :: "jsnum \<Rightarrow> jsnum \<Rightarrow> int \<times> issue list" where
  "vowelScoring jit shim =
     (let (score, issues) = (100, []);
          (score, issues) =
            (if js_gt jit 0.025 then (score - 30, issues @ [PitchInstability])
             else if js_gt jit 0.015 then (score - 10, issues)
             else (score, issues));
          (score, issues) =
            (if js_gt shim 0.1 then (score - 30, issues @ [BreathInstability])
             else if js_gt shim 0.06 then (score - 10, issues)
             else (score, issues))
      in (max 0 score, issues))"

text \<open>
  Either the recording is too short (a retry prompt, \<open>onFinish\<close> is not called), or
  \<open>onFinish(score, issues)\<close> is called.
\<close>

datatype vowel_outcome = TooShortRetry | VowelFinished int "issue list"

definition finishRecording :: "real list \<Rightarrow> real list \<Rightarrow> vowel_outcome" where
  "finishRecording pitches amps =
     (if length pitches < 15 then TooShortRetry
      else case vowelScoring (jitter pitches) (shimmer amps) of
             (finalScore, issues) \<Rightarrow> VowelFinished finalScore issues)"


section \<open>Voice module: the composite score (VoiceModule.handleReadingFinish)\<close>

text \<open>
  \<open>vowelScore\<close> and \<open>vowelIssues\<close> are the stored \<open>vowelResult\<close>; \<open>readingScore\<close> is the
  coherence score the external service returned.
\<close>

definition handleReadingFinish ::
  "Mode \<Rightarrow> int \<Rightarrow> issue list \<Rightarrow> real \<Rightarrow> nat \<Rightarrow> nat \<Rightarrow> int Completion" where
  "handleReadingFinish mode vowelScore vowelIssues readingScore now later =
     (let totalScore = \<lfloor>real_of_int vowelScore * 0.4 + readingScore * 0.6\<rfloor>;
          totalScore = (if vowelIssues \<noteq> [] then min totalScore 65 else totalScore)
      in if mode = CALIBRATION then
           \<lparr>persisted = None,
            completed = \<lparr>score = 100, details = BaselineRecorded, timestamp = now, raw = None\<rparr>\<rparr>
         else
           let issues = vowelIssues @ (if readingScore < 70 then [SemanticUnclear] else []);
               details =
                 (if issues \<noteq> [] then AudioIssues issues
                  else if totalScore < 85 then AudioAverage
                  else AudioGood)
           in \<lparr>persisted = Some \<lparr>h_type = AUDIO, h_score = totalScore, h_details = details,
                                 h_timestamp = now, h_snapshot = None\<rparr>,
               completed = \<lparr>score = totalScore, details = details, timestamp = later, raw = None\<rparr>\<rparr>)"


section \<open>Mirror module: per-frame symmetry (MirrorModule)\<close>

text \<open>A face-mesh landmark: normalised coordinates \<open>x\<close>, \<open>y\<close> and depth \<open>z\<close>.\<close>

record point =
  px :: real
  py :: real
  pz :: real

definition calculateDistance :: "point \<Rightarrow> point \<Rightarrow> real" where
  "calculateDistance p1 p2 = sqrt ((px p1 - px p2)\<^sup>2 + (py p1 - py p2)\<^sup>2)"

text \<open>\<open>getHeight\<close>: the loop starts from \<open>minY = 1\<close>, \<open>maxY = 0\<close>.\<close>

definition getHeight :: "point list \<Rightarrow> real" where
  "getHeight pts =
     (let (minY, maxY) =
            foldl (\<lambda>(minY, maxY) p.
                     (if py p < minY then py p else minY, if maxY < py p then py p else maxY))
                  (1, 0) pts
      in maxY - minY)"

text \<open>\<open>Math.floor((Math.min(l, r) / Math.max(l, r)) * 100)\<close>, on two measurements.\<close>

definition symmetryRatio :: "real \<Rightarrow> real \<Rightarrow> jsnum" where
  "symmetryRatio l r = js_floor (js_scale (js_div (min l r) (max l r)) 100)"

definition calculateSymmetry :: "point list \<Rightarrow> point list \<Rightarrow> jsnum" where
  "calculateSymmetry leftPoints rightPoints =
     (let lH = getHeight leftPoints; rH = getHeight rightPoints
      in symmetryRatio lH rH)"

text \<open>The landmark indices \<open>LM\<close>.\<close>

definition L_EYE :: "nat list" where "L_EYE = [33, 160, 158, 133, 153, 144]"
definition R_EYE :: "nat list" where "R_EYE = [362, 385, 387, 263, 373, 380]"
definition L_BROW :: "nat list" where "L_BROW = [70, 63, 105, 66, 107]"
definition R_BROW :: "nat list" where "R_BROW = [336, 296, 334, 293, 300]"

datatype lighting = LIGHT_OK | TOO_DARK

datatype pose_status = OK | WARN | ERROR

datatype guide_msg =
    CameraStarting | PositionGood | ComeCloser | MoveAway | StraightenHead | DoNotTurnHead
  | NoFaceDetected

record samples =
  eye :: "jsnum list"
  mouth :: "jsnum list"
  brow :: "jsnum list"

record RealtimeStats = VisualRaw +
  yaw :: int

record MirrorState =
  lightingStatus :: lighting
  isScanning :: bool
  scanProgress :: nat
  samplesRef :: samples
  guidance :: "pose_status \<times> guide_msg"
  isPoseValid :: bool
  realtimeStats :: RealtimeStats

definition initialMirror :: MirrorState where
  "initialMirror =
     \<lparr>lightingStatus = LIGHT_OK, isScanning = False, scanProgress = 0,
      samplesRef = \<lparr>eye = [], mouth = [], brow = []\<rparr>,
      guidance = (ERROR, CameraStarting), isPoseValid = False,
      realtimeStats = \<lparr>eyeSym = Num 100, mouthSym = Num 100, browSym = Num 100, yaw = 0\<rparr>\<rparr>"

text \<open>Reading a coordinate of a landmark that the array does not hold throws.\<close>

datatype js_error = TypeError

text \<open>
  \<open>onResults\<close>. \<open>canvasReady\<close>: the canvas, the video and the 2D context exist.
  \<open>multiFaceLandmarks\<close>: the faces of the frame (empty or undefined: no face). The highest
  index read is 454, so a shorter array makes the first distance computation throw,
  before any state is written.
\<close>

definition onResults :: "bool \<Rightarrow> point list list \<Rightarrow> MirrorState \<Rightarrow> js_error + MirrorState" where
  "onResults canvasReady multiFaceLandmarks st =
     (if \<not> canvasReady then Inr st
      else if lightingStatus st = TOO_DARK then Inr st
      else case multiFaceLandmarks of
        [] \<Rightarrow> Inr (st\<lparr>guidance := (ERROR, NoFaceDetected), isPoseValid := False\<rparr>)
      | landmarks # _ \<Rightarrow>
          if length landmarks \<le> 454 then Inl TypeError
          else
            let leftCheek = landmarks ! 234;
                rightCheek = landmarks ! 454;
                faceWidth = calculateDistance leftCheek rightCheek;
                noseTop = landmarks ! 10;
                noseBottom = landmarks ! 152;
                tiltX = \<bar>px noseTop - px noseBottom\<bar>;
                zDiff = \<bar>pz leftCheek - pz rightCheek\<bar>;
                (status, msg) =
                  (if faceWidth < 0.25 then (WARN, ComeCloser)
                   else if 0.8 < faceWidth then (WARN, MoveAway)
                   else if 0.08 < tiltX then (WARN, StraightenHead)
                   else if 0.05 < zDiff then (WARN, DoNotTurnHead)
                   else (OK, PositionGood));
                lEye = map (\<lambda>i. landmarks ! i) L_EYE;
                rEye = map (\<lambda>i. landmarks ! i) R_EYE;
                lBrow = map (\<lambda>i. landmarks ! i) L_BROW;
                rBrow = map (\<lambda>i. landmarks ! i) R_BROW;
                eyeS = calculateSymmetry lEye rEye;
                browS = calculateSymmetry lBrow rBrow;
                lMouthCorner = landmarks ! 61;
                rMouthCorner = landmarks ! 291;
                mouthCenter = landmarks ! 13;
                lDist = calculateDistance lMouthCorner mouthCenter;
                rDist = calculateDistance rMouthCorner mouthCenter;
                mouthS = symmetryRatio lDist rDist;
                st = st\<lparr>guidance := (status, msg), isPoseValid := (status = OK),
                        realtimeStats := \<lparr>eyeSym = eyeS, mouthSym = mouthS, browSym = browS,
                                          yaw = js_round (zDiff * 1000)\<rparr>\<rparr>
            in if isScanning st \<and> status = OK then
                 Inr (st\<lparr>samplesRef :=
                          \<lparr>eye = eye (samplesRef st) @ [eyeS],
                           mouth = mouth (samplesRef st) @ [mouthS],
                           brow = brow (samplesRef st) @ [browS]\<rparr>\<rparr>)
               else Inr st)"

text \<open>\<open>startScan\<close>: refused in the dark or with an invalid pose; else the window is cleared.\<close>

definition startScan :: "MirrorState \<Rightarrow> MirrorState" where
  "startScan st =
     (if lightingStatus st = TOO_DARK then st
      else if \<not> isPoseValid st then st
      else st\<lparr>isScanning := True, samplesRef := \<lparr>eye = [], mouth = [], brow = []\<rparr>,
              scanProgress := 0\<rparr>)"


section \<open>Mirror module: the end of a scan (MirrorModule.finishScan)\<close>

definition calcAvg :: "jsnum list \<Rightarrow> jsnum" where
  "calcAvg arr =
     (if 0 < length arr then js_quot (foldl js_add (Num 0) arr) (Num (real (length arr)))
      else Num 100)"

text \<open>
  \<open>baselineVisual\<close> is \<open>getBaseline()?.visual\<close>, \<open>snapshot\<close> the screenshot if one could
  be taken; \<open>now\<close> and \<open>later\<close> are the two readings of the clock.
\<close>

definition finishScan ::
  "Mode \<Rightarrow> VisualRaw option \<Rightarrow> string option \<Rightarrow> nat \<Rightarrow> nat \<Rightarrow> MirrorState
     \<Rightarrow> MirrorState \<times> jsnum Completion" where
  "finishScan mode baselineVisual snapshot now later st =
     (let st' = st\<lparr>isScanning := False\<rparr>;
          eyeScore = calcAvg (eye (samplesRef st));
          browScore = calcAvg (brow (samplesRef st));
          mouthScore = calcAvg (mouth (samplesRef st));
          finalScore =
            js_floor (js_add (js_add (js_scale eyeScore 0.4) (js_scale mouthScore 0.4))
                             (js_scale browScore 0.2))
      in if mode = CALIBRATION then
           (st', \<lparr>persisted = None,
                  completed = \<lparr>score = Num 100, details = BaselineRecorded, timestamp = now,
                               raw = Some \<lparr>eyeSym = eyeScore, mouthSym = mouthScore,
                                          browSym = browScore\<rparr>\<rparr>\<rparr>)
         else
           let details =
                 (if baselineVisual \<noteq> None then
                    (if js_lt finalScore 80 then VisualBelowBaseline else VisualMatchesBaseline)
                  else
                    (if js_lt finalScore 85 then VisualSlightAsymmetry else VisualSymmetric))
           in (st', \<lparr>persisted = Some \<lparr>h_type = VISUAL, h_score = finalScore,
                                       h_details = details, h_timestamp = now,
                                       h_snapshot = snapshot\<rparr>,
                     completed = \<lparr>score = finalScore, details = details, timestamp = later,
                                  raw = None\<rparr>\<rparr>))"


section \<open>Touch module: the spiral test (SpiralTest)\<close>

definition MAX_RADIUS :: real where "MAX_RADIUS = 140"
definition START_ZONE_RADIUS :: real where "START_ZONE_RADIUS = 35"
definition LOOPS :: nat where "LOOPS = 3"
definition B_COEFF :: real where "B_COEFF = MAX_RADIUS / (2 * pi * real LOOPS)"

text \<open>\<open>Math.atan2(y, x)\<close>, the angle of the point \<open>(x, y)\<close> in \<open>(-pi, pi]\<close>.\<close>

definition atan2 :: "real \<Rightarrow> real \<Rightarrow> real" where
  "atan2 y x =
     (if 0 < x then arctan (y / x)
      else if x < 0 then (if 0 \<le> y then arctan (y / x) + pi else arctan (y / x) - pi)
      else if 0 < y then pi / 2
      else if y < 0 then - (pi / 2)
      else 0)"

definition distFromCenter :: "real \<times> real \<Rightarrow> real \<Rightarrow> real \<Rightarrow> real" where
  "distFromCenter center x y = sqrt ((x - fst center)\<^sup>2 + (y - snd center)\<^sup>2)"

text \<open>\<open>calculateError\<close>: the radial deviation, minimised over the windings 0..LOOPS.\<close>

definition calculateError :: "real \<times> real \<Rightarrow> real \<Rightarrow> real \<Rightarrow> real" where
  "calculateError center x y =
     (let dx = x - fst center;
          dy = y - snd center;
          rUser = sqrt (dx * dx + dy * dy);
          thetaUser = atan2 dy dx;
          thetaUser = (if thetaUser < 0 then thetaUser + 2 * pi else thetaUser)
      in foldl (\<lambda>minDiff n.
                  let angleCandidate = thetaUser + real n * 2 * pi
                  in if 2 * pi * real LOOPS + 0.5 < angleCandidate then minDiff
                     else let rIdeal = B_COEFF * angleCandidate;
                              diff = \<bar>rUser - rIdeal\<bar>
                          in if diff < minDiff then diff else minDiff)
               999 [0..<LOOPS + 1])"

datatype spiral_msg = PressCenterToStart | StartFromCenter | KeepHolding | DoNotLift

text \<open>
  The state of one spiral test: the React state \<open>isDrawing\<close>, \<open>progress\<close>, \<open>guideMsg\<close> and
  the two buffers \<open>pointsRef\<close>, \<open>errorsRef\<close>.
\<close>

record SpiralState =
  isDrawing :: bool
  progress :: real
  guideMsg :: spiral_msg
  pointsRef :: "(real \<times> real) list"
  errorsRef :: "real list"

definition initialSpiral :: SpiralState where
  "initialSpiral =
     \<lparr>isDrawing = False, progress = 0, guideMsg = PressCenterToStart,
      pointsRef = [], errorsRef = []\<rparr>"

text \<open>
  \<open>finishTest\<close>: the new state and the score handed to \<open>onFinish\<close>, if any. The score
  is floored to an integer, so the rounding of the double operations before it matters:
  \<open>rnd\<close> stands for the rounding of the exact result of one double operation
  (comparisons, \<open>Math.max\<close>, \<open>Math.min\<close> and \<open>Math.floor\<close> are exact). Every statement
  below holds for every \<open>rnd\<close>, so for round-to-nearest and for exact arithmetic alike.
\<close>

definition finishTest :: "(real \<Rightarrow> real) \<Rightarrow> SpiralState \<Rightarrow> SpiralState \<times> int option" where
  "finishTest rnd st =
     (let st' = st\<lparr>isDrawing := False\<rparr>
      in if length (errorsRef st) = 0 then (st', None)
         else
           let sumSquares = foldl (\<lambda>a b. rnd (a + rnd (b * b))) 0 (errorsRef st);
               rmse = rnd (sqrt (rnd (sumSquares / real (length (errorsRef st)))));
               score = max 0 (rnd (100 - rnd (rmse * 2)));
               score = (if length (pointsRef st) < 30 then min score 40 else score)
           in (st', Some \<lfloor>score\<rfloor>))"

text \<open>
  The three handlers. \<open>center\<close> is the value of \<open>CENTER\<close> that the handler's closure
  holds.
\<close>

definition handleStart :: "real \<times> real \<Rightarrow> real \<Rightarrow> real \<Rightarrow> SpiralState \<Rightarrow> SpiralState" where
  "handleStart center x y st =
     (if START_ZONE_RADIUS < distFromCenter center x y then st\<lparr>guideMsg := StartFromCenter\<rparr>
      else st\<lparr>isDrawing := True, guideMsg := KeepHolding, pointsRef := [(x, y)],
              errorsRef := []\<rparr>)"

definition handleMove ::
  "(real \<Rightarrow> real) \<Rightarrow> real \<times> real \<Rightarrow> real \<Rightarrow> real \<Rightarrow> SpiralState
     \<Rightarrow> SpiralState \<times> int option" where
  "handleMove rnd center x y st =
     (if \<not> isDrawing st then (st, None)
      else
        let st = st\<lparr>pointsRef := pointsRef st @ [(x, y)],
                    errorsRef := errorsRef st @ [calculateError center x y]\<rparr>;
            dist = distFromCenter center x y;
            currentProg = min 100 ((dist / MAX_RADIUS) * 100);
            st = st\<lparr>progress := currentProg\<rparr>
        in if MAX_RADIUS - 10 \<le> dist then finishTest rnd st else (st, None))"

definition handleEnd :: "SpiralState \<Rightarrow> SpiralState" where
  "handleEnd st =
     (if isDrawing st then
        st\<lparr>isDrawing := False, guideMsg := DoNotLift, pointsRef := [], errorsRef := [],
           progress := 0\<rparr>
      else st)"

text \<open>
  The component. \<open>CENTER\<close> is declared in the component's body as \<open>{x: 0, y: 0}\<close>, so
  every render makes a new one; \<open>initCanvas\<close>, which sets it to the centre of the canvas,
  runs once after the first render, on the object of that render. The handlers bound to
  the canvas are those of the latest render. Hence the handlers see the centre of the
  canvas until the component renders again, and \<open>(0, 0)\<close> from then on. The component
  renders again when a handler has changed one of the React states \<open>isDrawing\<close>,
  \<open>progress\<close>, \<open>guideMsg\<close> (writing the two buffers does not render).

  A mounted component is the state of the test with the \<open>CENTER\<close> its handlers see.
\<close>

definition mounted :: "real \<times> real \<Rightarrow> SpiralState \<times> (real \<times> real)" where
  "mounted canvasCenter = (initialSpiral, canvasCenter)"

definition rendered :: "SpiralState \<Rightarrow> real \<times> real \<Rightarrow> SpiralState \<Rightarrow> SpiralState \<times> (real \<times> real)" where
  "rendered before center after =
     (after,
      if (isDrawing after, progress after, guideMsg after)
           \<noteq> (isDrawing before, progress before, guideMsg before)
      then (0, 0) else center)"

text \<open>
  The pointer events of the canvas, and a capture as the sequence of its events. The
  last component collects the scores handed to \<open>onFinish\<close>, oldest first.
\<close>

datatype pointer_event = PointerDown real real | PointerMove real real | PointerUp

fun dispatch ::
  "(real \<Rightarrow> real) \<Rightarrow> (SpiralState \<times> (real \<times> real)) \<times> int list \<Rightarrow> pointer_event
     \<Rightarrow> (SpiralState \<times> (real \<times> real)) \<times> int list" where
  "dispatch rnd ((st, center), emitted) (PointerDown x y) =
     (rendered st center (handleStart center x y st), emitted)"
| "dispatch rnd ((st, center), emitted) (PointerMove x y) =
     (case handleMove rnd center x y st of
        (st', None) \<Rightarrow> (rendered st center st', emitted)
      | (st', Some sc) \<Rightarrow> (rendered st center st', emitted @ [sc]))"
| "dispatch rnd ((st, center), emitted) PointerUp =
     (rendered st center (handleEnd st), emitted)"

definition runEvents ::
  "(real \<Rightarrow> real) \<Rightarrow> (SpiralState \<times> (real \<times> real)) \<times> int list \<Rightarrow> pointer_event list
     \<Rightarrow> (SpiralState \<times> (real \<times> real)) \<times> int list" where
  "runEvents rnd start events = foldl (dispatch rnd) start events"


section \<open>The formulas of the specification\<close>

text \<open>
  The closed forms the specification states, written from its words, for comparison with
  the loops above.
\<close>

definition mean :: "real list \<Rightarrow> real" where
  "mean xs = sum_list xs / real (length xs)"

definition absDeltas :: "real list \<Rightarrow> real list" where
  "absDeltas xs = map (\<lambda>(a, b). \<bar>b - a\<bar>) (zip xs (tl xs))"

text \<open>Jitter and shimmer: mean absolute consecutive difference over the mean.\<close>

definition relativeVariability :: "real list \<Rightarrow> real" where
  "relativeVariability xs = mean (absDeltas xs) / mean xs"


text \<open>
  Pose validity: valid unless the face is too far (width below 0.25) or too close (width
  above 0.8), the head is not level (tilt above 0.08) or turned (depth asymmetry above
  0.05).
\<close>

definition poseValid :: "point list \<Rightarrow> bool" where
  "poseValid landmarks =
     (\<not> (calculateDistance (landmarks ! 234) (landmarks ! 454) < 0.25
         \<or> 0.8 < calculateDistance (landmarks ! 234) (landmarks ! 454)
         \<or> 0.08 < \<bar>px (landmarks ! 10) - px (landmarks ! 152)\<bar>
         \<or> 0.05 < \<bar>pz (landmarks ! 234) - pz (landmarks ! 454)\<bar>))"

text \<open>
  The vowel deduction: 30 above the high threshold, else 10 above the low one, else none.
\<close>

definition tieredPenalty :: "real \<Rightarrow> real \<Rightarrow> jsnum \<Rightarrow> int" where
  "tieredPenalty high low v = (if js_gt v high then 30 else if js_gt v low then 10 else 0)"


section \<open>Concrete inputs\<close>

text \<open>
  A face-mesh frame of 468 landmarks whose pose is valid (the cheeks are half the image
  width apart, the head level and not turned) and whose eye, brow and mouth landmarks
  all lie at one point, so that every left and right measurement is zero.
\<close>

definition flatFrame :: "point list" where
  "flatFrame =
     (replicate 468 \<lparr>px = 0.5, py = 0.5, pz = 0\<rparr>)
       [234 := \<lparr>px = 0.25, py = 0.5, pz = 0\<rparr>, 454 := \<lparr>px = 0.75, py = 0.5, pz = 0\<rparr>]"

text \<open>Two landmark clusters of heights 0.2 and 0.3.\<close>

definition leftCluster :: "point list" where
  "leftCluster = [\<lparr>px = 0.3, py = 0.2, pz = 0\<rparr>, \<lparr>px = 0.3, py = 0.4, pz = 0\<rparr>]"

definition rightCluster :: "point list" where
  "rightCluster = [\<lparr>px = 0.7, py = 0.3, pz = 0\<rparr>, \<lparr>px = 0.7, py = 0.6, pz = 0\<rparr>]"

text \<open>The mirror module during a scan, no sample admitted yet.\<close>

definition scanningMirror :: MirrorState where
  "scanningMirror =
     initialMirror\<lparr>isScanning := True, isPoseValid := True, guidance := (OK, PositionGood)\<rparr>"

text \<open>
  A vowel recording of 15 frames: the pitch alternates between 250 Hz and 256 Hz, the
  amplitude is constant.
\<close>

definition wobble :: "real list" where
  "wobble = [250, 256, 250, 256, 250, 256, 250, 256, 250, 256, 250, 256, 250, 256, 250]"

definition steady :: "real list" where
  "steady = replicate 15 0.1"

text \<open>A touch result with a detected resting tremor, as the only result of the day.\<close>

definition tremorDay :: UserHealthState where
  "tremorDay =
     \<lparr>visual = None, audio = None,
      touch = Some (asMetric (completed (analyze TEST 100 100 [RestingTremor] 1000 2000)))\<rparr>"

text \<open>
  The same day after a mirror test whose window held a NaN sample: its score is NaN.
\<close>

definition tremorDayNaN :: UserHealthState where
  "tremorDayNaN =
     tremorDay\<lparr>visual :=
       Some (completed (snd (finishScan TEST None None 900 950
               (scanningMirror\<lparr>samplesRef := \<lparr>eye = [NaN], mouth = [NaN], brow = [NaN]\<rparr>\<rparr>))))\<rparr>"


section \<open>Properties of the risk aggregator\<close>

lemma touch_in_validScores: "touch hs = Some m \<Longrightarrow> score m \<in> set (validScores hs)"
  by (simp add: validScores_def)

text \<open>
  Without an API key, and whenever the service replies, a critical score gives STORM,
  whatever the reply says.
\<close>

lemma report_demo_critical:
  assumes "validScores hs \<noteq> []" "criticalIssue (validScores hs)"
  shows "r_status (generateHealthReport None hs baseline historyAvg) = STORM"
  using assms by (simp add: generateHealthReport_def mockReport_def Let_def)

lemma report_reply_critical:
  assumes "validScores hs \<noteq> []" "criticalIssue (validScores hs)"
  shows "r_status (generateHealthReport (Some (Reply st msg)) hs baseline historyAvg) = STORM"
  using assms by (simp add: generateHealthReport_def Let_def)

text \<open>A failed service call gives CLOUDY, whatever the scores.\<close>

lemma report_failure:
  assumes "validScores hs \<noteq> []" "outcome \<in> {Rejected, EmptyText, Malformed}"
  shows "generateHealthReport (Some outcome) hs baseline historyAvg =
           \<lparr>r_text = ServiceConnecting, r_status = CLOUDY\<rparr>"
  using assms by (auto simp add: generateHealthReport_def Let_def)

text \<open>
  The minimum of numbers none of which is NaN is below a bound as soon as one of them
  is; with a NaN among them the minimum is NaN and below nothing.
\<close>

lemma js_min_lt:
  assumes "a \<noteq> NaN" "b \<noteq> NaN"
  shows "js_min a b \<noteq> NaN \<and> (js_lt (js_min a b) c \<longleftrightarrow> js_lt a c \<or> js_lt b c)"
  using assms by (cases a; cases b) (auto simp: min_less_iff_disj)

lemma foldl_js_min_lt:
  assumes "acc \<noteq> NaN" "NaN \<notin> set xs"
  shows "js_lt (foldl js_min acc xs) c \<longleftrightarrow> js_lt acc c \<or> (\<exists>x \<in> set xs. js_lt x c)"
  using assms
proof (induction xs arbitrary: acc)
  case Nil
  then show ?case by simp
next
  case (Cons x xs)
  then have x: "x \<noteq> NaN" and rest: "NaN \<notin> set xs" by auto
  from js_min_lt[OF Cons.prems(1) x, of c]
  have ne: "js_min acc x \<noteq> NaN" and lt: "js_lt (js_min acc x) c \<longleftrightarrow> js_lt acc c \<or> js_lt x c"
    by simp_all
  from Cons.IH[OF ne rest] lt show ?case by auto
qed

lemma criticalIssue_numbers:
  assumes "NaN \<notin> set scores"
  shows "criticalIssue scores \<longleftrightarrow> (\<exists>x \<in> set scores. js_lt x 60)"
  using foldl_js_min_lt[of PosInf scores 60] assms
  by (simp add: criticalIssue_def lowestScore_def Math_min_def)

lemma foldl_js_min_NaN: "foldl js_min NaN xs = NaN"
  by (induction xs) simp_all

lemma Math_min_NaN:
  assumes "NaN \<in> set scores"
  shows "Math_min scores = NaN"
proof -
  have "foldl js_min acc scores = NaN" for acc
    using assms
  proof (induction scores arbitrary: acc)
    case Nil
    then show ?case by simp
  next
    case (Cons x xs)
    show ?case
    proof (cases "x = NaN")
      case True
      have "js_min acc NaN = NaN" by (cases acc) simp_all
      then show ?thesis by (simp add: True foldl_js_min_NaN)
    next
      case False
      with Cons.prems have "NaN \<in> set xs" by simp
      from Cons.IH[OF this] show ?thesis by simp
    qed
  qed
  then show ?thesis by (simp add: Math_min_def)
qed

text \<open>
  Claim C1 says that a score below 60 gives STORM on every path, the failing service call
  included. The code does not do so: with a touch score of 40 as the only score, a
  configured service and a rejected call, the report's status is CLOUDY.
\<close>

theorem generateHealthReport_failed_call_is_cloudy:
  "generateHealthReport (Some Rejected)
     \<lparr>visual = None, audio = None,
      touch = Some \<lparr>score = Num 40, details = TouchNormal, timestamp = 0, raw = None\<rparr>\<rparr>
     None 0
   = \<lparr>r_text = ServiceConnecting, r_status = CLOUDY\<rparr>"
  by (simp add: generateHealthReport_def validScores_def Let_def)


section \<open>Properties of the touch module\<close>

lemma analyze_test_score:
  "score (completed (analyze TEST c s issues now later)) =
     (if RestingTremor \<in> set issues
      then min \<lfloor>0.5 * real_of_int c + 0.5 * real_of_int s\<rfloor> 59
      else \<lfloor>0.5 * real_of_int c + 0.5 * real_of_int s\<rfloor>)
   \<and> map_option h_score (persisted (analyze TEST c s issues now later)) =
       Some (score (completed (analyze TEST c s issues now later)))"
  by (simp add: analyze_def Let_def mult.commute)

lemma analyze_tremor_below_60:
  "RestingTremor \<in> set issues \<Longrightarrow> score (completed (analyze TEST c s issues now later)) < 60"
  by (simp add: analyze_test_score)

text \<open>
  Where the weakest-link rule is applied and every score of the day is a number, a
  detected tremor gives STORM: without an API key and for every reply of the service.
\<close>

lemma tremor_storm_where_rule_applies:
  assumes "RestingTremor \<in> set issues"
      and "touch hs = Some (asMetric (completed (analyze TEST c s issues now later)))"
      and "NaN \<notin> set (validScores hs)"
  shows "criticalIssue (validScores hs)
         \<and> r_status (generateHealthReport None hs baseline historyAvg) = STORM
         \<and> r_status (generateHealthReport (Some (Reply st msg)) hs baseline historyAvg) = STORM"
proof -
  let ?m = "asMetric (completed (analyze TEST c s issues now later))"
  from touch_in_validScores[OF assms(2)] have mem: "score ?m \<in> set (validScores hs)" .
  then have ne: "validScores hs \<noteq> []" by auto
  have "js_lt (score ?m) 60"
    using analyze_tremor_below_60[OF assms(1), of c s now later] by (simp add: asMetric_def)
  with mem have crit: "criticalIssue (validScores hs)"
    by (auto simp: criticalIssue_numbers[OF assms(3)])
  from crit report_demo_critical[OF ne crit] report_reply_critical[OF ne crit]
  show ?thesis by simp
qed

text \<open>
  Claim C10 says that a detected resting tremor caps the touch composite at 59 and that
  this forces the overall status DANGER. The cap holds: the composite of two scores of
  100 with the tremor reported is 59. The status does not follow on every path: with a
  configured service whose call fails the report of that day is CLOUDY, and with a NaN
  score from the mirror module beside it the minimum is NaN, the critical flag is false
  and the report is CLOUDY even without an API key.
\<close>

theorem tremor_day_is_not_always_storm:
  "score (completed (analyze TEST 100 100 [RestingTremor] 1000 2000)) = 59
   \<and> validScores tremorDay = [Num 59]
   \<and> generateHealthReport (Some Rejected) tremorDay None 0
       = \<lparr>r_text = ServiceConnecting, r_status = CLOUDY\<rparr>
   \<and> validScores tremorDayNaN = [NaN, Num 59]
   \<and> criticalIssue (validScores tremorDayNaN) = False
   \<and> r_status (generateHealthReport None tremorDayNaN None 0) = CLOUDY"
proof -
  have a: "score (completed (analyze TEST 100 100 [RestingTremor] 1000 2000)) = 59"
    by (simp add: analyze_def Let_def)
  have v: "validScores tremorDay = [Num 59]"
    by (simp add: validScores_def tremorDay_def asMetric_def a)
  have n: "score (completed (snd (finishScan TEST None None 900 950
               (scanningMirror\<lparr>samplesRef := \<lparr>eye = [NaN], mouth = [NaN], brow = [NaN]\<rparr>\<rparr>)))) = NaN"
    by (simp add: finishScan_def calcAvg_def Let_def)
  have vn: "validScores tremorDayNaN = [NaN, Num 59]"
    using n by (simp add: validScores_def tremorDayNaN_def tremorDay_def asMetric_def a)
  have c: "criticalIssue [NaN, Num 59] = False"
    by (simp add: criticalIssue_def lowestScore_def Math_min_def)
  have r: "generateHealthReport (Some Rejected) tremorDay None 0
       = \<lparr>r_text = ServiceConnecting, r_status = CLOUDY\<rparr>"
    by (simp add: generateHealthReport_def v Let_def)
  have d: "r_status (generateHealthReport None tremorDayNaN None 0) = CLOUDY"
    by (simp add: generateHealthReport_def vn c Let_def currentAvg_def mockReport_def)
  from a v r vn c d show ?thesis by simp
qed


section \<open>Properties of the vowel test\<close>

text \<open>
  Claim C6. For every jitter and shimmer value the vowel score is 100 minus the jitter
  deduction (30 above 0.025, else 10 above 0.015) minus the shimmer deduction (30 above
  0.10, else 10 above 0.06), floored at 0; the pitch tag is emitted exactly when the
  jitter deduction is 30, the breath tag exactly when the shimmer deduction is 30; a
  jitter of 0.024 is deducted 10 and a jitter of 0.026 is deducted 30.
\<close>

theorem vowelScoring_rule:
  "fst (vowelScoring jit shim) =
     max 0 (100 - tieredPenalty 0.025 0.015 jit - tieredPenalty 0.1 0.06 shim)
   \<and> (PitchInstability \<in> set (snd (vowelScoring jit shim))
        \<longleftrightarrow> tieredPenalty 0.025 0.015 jit = 30)
   \<and> (BreathInstability \<in> set (snd (vowelScoring jit shim))
        \<longleftrightarrow> tieredPenalty 0.1 0.06 shim = 30)
   \<and> fst (vowelScoring (Num 0.024) shim) = max 0 (100 - 10 - tieredPenalty 0.1 0.06 shim)
   \<and> fst (vowelScoring (Num 0.026) shim) = max 0 (100 - 30 - tieredPenalty 0.1 0.06 shim)"
  by (simp add: vowelScoring_def tieredPenalty_def)

theorem vowelScoring_rule_witness:
  "vowelScoring (Num 0.024) (Num 0.11) = (60, [BreathInstability])
   \<and> vowelScoring (Num 0.026) (Num 0.05) = (70, [PitchInstability])"
proof -
  have a: "snd (vowelScoring (Num 0.024) (Num 0.11)) = [BreathInstability]"
    and b: "snd (vowelScoring (Num 0.026) (Num 0.05)) = [PitchInstability]"
    by (simp_all add: vowelScoring_def)
  have c: "tieredPenalty 0.1 0.06 (Num 0.11) = 30" and d: "tieredPenalty 0.1 0.06 (Num 0.05) = 0"
    by (simp_all add: tieredPenalty_def)
  from vowelScoring_rule[of "Num 0.11"] vowelScoring_rule[of "Num 0.05"] a b c d
  show ?thesis by (simp add: prod_eq_iff)
qed

text \<open>The reduction loop in closed form: the sums it returns.\<close>

lemma consecutiveSums_eq:
  "consecutiveSums xs (d, v) = (d + sum_list (absDeltas xs), v + sum_list (tl xs))"
  by (induction xs "(d, v)" arbitrary: d v rule: consecutiveSums.induct)
     (simp_all add: absDeltas_def algebra_simps)

text \<open>
  What the code computes as jitter: the mean absolute difference, over the sum of all
  samples but the first divided by the number of all samples.
\<close>

lemma jitter_code:
  assumes "2 \<le> length pitches"
  shows "jitter pitches =
           js_div (mean (absDeltas pitches))
                  ((sum_list pitches - hd pitches) / real (length pitches))"
proof -
  obtain p ps where ps: "pitches = p # ps" using assms by (cases pitches) auto
  have len: "length (absDeltas pitches) = length pitches - 1"
    by (simp add: absDeltas_def)
  have n1: "real_of_int (int (length pitches) - 1) = real (length pitches - 1)"
    using assms by (simp add: of_nat_diff)
  have nz: "real (length pitches - 1) \<noteq> 0" "real (length pitches) \<noteq> 0" using assms by auto
  have sums: "consecutiveSums pitches (0, 0) = (sum_list (absDeltas pitches), sum_list (tl pitches))"
    by (simp add: consecutiveSums_eq)
  have a: "js_div (sum_list (absDeltas pitches)) (real (length pitches - 1)) =
             Num (mean (absDeltas pitches))"
    using nz(1) by (simp add: js_div_def mean_def len)
  have b: "js_div (sum_list (tl pitches)) (real (length pitches)) =
             Num ((sum_list pitches - hd pitches) / real (length pitches))"
    using nz(2) by (simp add: js_div_def ps)
  show ?thesis
    by (simp only: jitter_def sums Let_def prod.case n1 a b js_quot.simps)
qed

text \<open>
  Claim C5 says that jitter is the mean absolute difference of consecutive pitches over
  the mean of the pitch samples. The loop that sums the pitches starts at index 1, so the
  first sample is missing from the sum that is divided by the number of all samples. On
  the recording \<open>wobble\<close> the code's jitter is 45/1771, above the 0.025 threshold,
  where the stated formula gives 15/632, below it: the code reports score 70 with the
  pitch tag where the stated formula gives 90 without a tag.
\<close>

theorem finishRecording_jitter_skips_first_sample:
  "jitter wobble = Num (45 / 1771)
   \<and> relativeVariability wobble = 15 / 632
   \<and> finishRecording wobble steady = VowelFinished 70 [PitchInstability]
   \<and> vowelScoring (Num (relativeVariability wobble)) (shimmer steady) = (90, [])"
proof -
  have j: "jitter wobble = Num (45 / 1771)"
    by (simp add: jitter_def wobble_def js_div_def)
  have r: "relativeVariability wobble = 15 / 632"
    by (simp add: relativeVariability_def mean_def absDeltas_def wobble_def)
  have s: "shimmer steady = Num 0"
    by (simp add: steady_def shimmer_def eval_nat_numeral js_div_def)
  have l: "length wobble = 15" by (simp add: wobble_def)
  show ?thesis
    by (simp add: j r s l finishRecording_def vowelScoring_def)
qed


section \<open>Properties of the mirror module\<close>

lemma floor_scaled_ratio:
  fixes t :: real
  assumes "0 \<le> t" "t \<le> 1"
  shows "0 \<le> \<lfloor>t * 100\<rfloor> \<and> \<lfloor>t * 100\<rfloor> \<le> 100 \<and> (\<lfloor>t * 100\<rfloor> = 100 \<longleftrightarrow> t = 1)"
proof -
  have "0 \<le> t * 100" "t * 100 \<le> 100" using assms by simp_all
  then show ?thesis using assms by (auto simp: floor_le_iff le_floor_iff floor_eq_iff)
qed

lemma symmetryRatio_pos:
  assumes "0 < l" "0 < r"
  shows "\<exists>v. symmetryRatio l r = Num v \<and> 0 \<le> v \<and> v \<le> 100 \<and> (v = 100 \<longleftrightarrow> l = r)"
proof -
  define t where "t = min l r / max l r"
  have mx: "0 < max l r" and mn: "0 < min l r" using assms by auto
  have eq: "symmetryRatio l r = Num (of_int \<lfloor>t * 100\<rfloor>)"
    using mx by (simp add: symmetryRatio_def js_div_def t_def)
  have t0: "0 \<le> t" and t1: "t \<le> 1" using mx mn by (simp_all add: t_def)
  have teq: "t = 1 \<longleftrightarrow> l = r" using mx by (auto simp: t_def)
  from floor_scaled_ratio[OF t0 t1]
  have f: "0 \<le> \<lfloor>t * 100\<rfloor>" "\<lfloor>t * 100\<rfloor> \<le> 100" "\<lfloor>t * 100\<rfloor> = 100 \<longleftrightarrow> l = r"
    using teq by simp_all
  have g: "(real_of_int \<lfloor>t * 100\<rfloor> = 100) = (\<lfloor>t * 100\<rfloor> = 100)" by linarith
  show ?thesis
    unfolding eq using f g by (intro exI[of _ "of_int \<lfloor>t * 100\<rfloor>"]) simp
qed

lemma symmetryRatio_zero: "symmetryRatio 0 0 = NaN"
  by (simp add: symmetryRatio_def js_div_def)

text \<open>
  Claim C8. For left and right landmark clusters whose measured heights are positive,
  \<open>calculateSymmetry\<close> returns a number between 0 and 100, and that number is 100
  exactly when the two heights are equal.
\<close>

theorem calculateSymmetry_bounds:
  assumes "0 < getHeight leftPoints" "0 < getHeight rightPoints"
  shows "\<exists>v. calculateSymmetry leftPoints rightPoints = Num v \<and> 0 \<le> v \<and> v \<le> 100
             \<and> (v = 100 \<longleftrightarrow> getHeight leftPoints = getHeight rightPoints)"
  using symmetryRatio_pos[OF assms] by (simp add: calculateSymmetry_def Let_def)

theorem calculateSymmetry_bounds_witness:
  "0 < getHeight leftCluster \<and> 0 < getHeight rightCluster
   \<and> (\<exists>v. calculateSymmetry leftCluster rightCluster = Num v
            \<and> 0 \<le> v \<and> v \<le> 100 \<and> v \<noteq> 100)"
proof -
  have l: "getHeight leftCluster = 1 / 5"
    by (simp add: getHeight_def leftCluster_def)
  have r: "getHeight rightCluster = 3 / 10"
    by (simp add: getHeight_def rightCluster_def)
  have pos: "0 < getHeight leftCluster" "0 < getHeight rightCluster"
    by (simp_all add: l r)
  from calculateSymmetry_bounds[OF pos] pos
  show ?thesis by (simp add: l r)
qed

text \<open>
  Claim C3 says that a scan finishing with an empty sample window fails softly and emits
  no score. The code does otherwise: the mean of an empty window is taken as 100, so the
  scan completes; in test mode a record with score 100 is persisted and a result with
  score 100 is handed on.
\<close>

theorem finishScan_empty_window_counterexample:
  "snd (finishScan TEST None None 1 2 scanningMirror) =
     \<lparr>persisted = Some \<lparr>h_type = VISUAL, h_score = Num 100, h_details = VisualSymmetric,
                         h_timestamp = 1, h_snapshot = None\<rparr>,
      completed = \<lparr>score = Num 100, details = VisualSymmetric, timestamp = 2, raw = None\<rparr>\<rparr>"
  by (simp add: finishScan_def scanningMirror_def initialMirror_def calcAvg_def Let_def)

text \<open>
  Claim C3 as amended. If the sample window is empty when the scan finishes, each
  per-feature mean defaults to 100 and the scan completes: in test mode a VISUAL record
  with score 100 is persisted and a result with score 100 is emitted, in calibration mode
  a result with score 100 and the raw means 100, 100, 100 is emitted; the scan is marked
  as no longer running.
\<close>

theorem finishScan_empty_window:
  assumes "samplesRef st = \<lparr>eye = [], mouth = [], brow = []\<rparr>"
  shows "finishScan TEST baselineVisual snapshot now later st =
           (st\<lparr>isScanning := False\<rparr>,
            \<lparr>persisted = Some \<lparr>h_type = VISUAL, h_score = Num 100,
               h_details = (if baselineVisual \<noteq> None then VisualMatchesBaseline else VisualSymmetric),
               h_timestamp = now, h_snapshot = snapshot\<rparr>,
             completed = \<lparr>score = Num 100,
               details = (if baselineVisual \<noteq> None then VisualMatchesBaseline else VisualSymmetric),
               timestamp = later, raw = None\<rparr>\<rparr>)
       \<and> finishScan CALIBRATION baselineVisual snapshot now later st =
           (st\<lparr>isScanning := False\<rparr>,
            \<lparr>persisted = None,
             completed = \<lparr>score = Num 100, details = BaselineRecorded, timestamp = now,
               raw = Some \<lparr>eyeSym = Num 100, mouthSym = Num 100, browSym = Num 100\<rparr>\<rparr>\<rparr>)"
  using assms by (simp add: finishScan_def calcAvg_def Let_def)

theorem finishScan_empty_window_witness:
  "samplesRef (startScan scanningMirror) = \<lparr>eye = [], mouth = [], brow = []\<rparr>
   \<and> map_option h_score
        (persisted (snd (finishScan TEST None (Some ''jpeg'') 5 6 (startScan scanningMirror))))
       = Some (Num 100)
   \<and> score (completed (snd (finishScan TEST None (Some ''jpeg'') 5 6 (startScan scanningMirror))))
       = Num 100
   \<and> raw (completed (snd (finishScan CALIBRATION None (Some ''jpeg'') 5 6 (startScan scanningMirror))))
       = Some \<lparr>eyeSym = Num 100, mouthSym = Num 100, browSym = Num 100\<rparr>"
proof -
  have e: "samplesRef (startScan scanningMirror) = \<lparr>eye = [], mouth = [], brow = []\<rparr>"
    by (simp add: startScan_def scanningMirror_def initialMirror_def)
  from finishScan_empty_window[OF e, of None "Some ''jpeg''" 5 6] e
  show ?thesis by simp
qed

lemma sqrt_quarter: "sqrt (1 / 4) = 1 / 2"
  by (simp add: real_sqrt_divide)

lemma flatFrame_length: "length flatFrame = 468"
  by (simp add: flatFrame_def)

lemma flatFrame_nth:
  "i < 468 \<Longrightarrow> flatFrame ! i =
     (if i = 454 then \<lparr>px = 0.75, py = 0.5, pz = 0\<rparr>
      else if i = 234 then \<lparr>px = 0.25, py = 0.5, pz = 0\<rparr>
      else \<lparr>px = 0.5, py = 0.5, pz = 0\<rparr>)"
  by (simp add: flatFrame_def nth_list_update)

text \<open>
  Claim C4 says that a pair of zero measurements is treated as an error and never
  admitted as a sample. The code does otherwise: on the frame \<open>flatFrame\<close>, during a
  scan, \<open>onResults\<close> raises no error and appends NaN to each of the three windows.
\<close>

theorem onResults_zero_measures_counterexample:
  "onResults True [flatFrame] scanningMirror =
     Inr (scanningMirror\<lparr>
            realtimeStats := \<lparr>eyeSym = NaN, mouthSym = NaN, browSym = NaN, yaw = 0\<rparr>,
            samplesRef := \<lparr>eye = [NaN], mouth = [NaN], brow = [NaN]\<rparr>\<rparr>)"
  by (simp add: onResults_def flatFrame_length flatFrame_nth scanningMirror_def
      initialMirror_def Let_def calculateDistance_def calculateSymmetry_def getHeight_def
      symmetryRatio_zero L_EYE_def R_EYE_def L_BROW_def R_BROW_def js_round_def sqrt_quarter
      power2_eq_square)


text \<open>
  What \<open>onResults\<close> does with a frame of at least 455 landmarks when the canvas is
  ready, the light sufficient and a scan running: it raises no error, the pose is valid
  exactly when the thresholds say so, and a frame with a valid pose appends one sample to
  each window, whatever the sample is.
\<close>

lemma onResults_scanning:
  assumes "454 < length landmarks" "lightingStatus st = LIGHT_OK" "isScanning st"
  shows "\<exists>st'. onResults True (landmarks # others) st = Inr st'
           \<and> isPoseValid st' = poseValid landmarks
           \<and> (poseValid landmarks \<longrightarrow>
                samplesRef st' =
                  \<lparr>eye = eye (samplesRef st) @
                          [calculateSymmetry (map (\<lambda>i. landmarks ! i) L_EYE)
                                             (map (\<lambda>i. landmarks ! i) R_EYE)],
                   mouth = mouth (samplesRef st) @
                          [symmetryRatio (calculateDistance (landmarks ! 61) (landmarks ! 13))
                                         (calculateDistance (landmarks ! 291) (landmarks ! 13))],
                   brow = brow (samplesRef st) @
                          [calculateSymmetry (map (\<lambda>i. landmarks ! i) L_BROW)
                                             (map (\<lambda>i. landmarks ! i) R_BROW)]\<rparr>)"
  using assms
  by (auto simp add: onResults_def poseValid_def Let_def)

text \<open>
  Claim C4 as amended. For a pair of left and right landmark clusters whose measured
  heights (or mouth-corner distances) are both zero, the symmetry computation raises no
  error: the division of zero by zero yields NaN, and when a scan is running and the
  frame's pose is valid that NaN is appended to the sample window like any other sample.
\<close>

theorem onResults_zero_measures_admitted:
  assumes "454 < length landmarks" "lightingStatus st = LIGHT_OK" "isScanning st"
      and "poseValid landmarks"
  shows "\<exists>st'. onResults True (landmarks # others) st = Inr st'
           \<and> isPoseValid st'
           \<and> (getHeight (map (\<lambda>i. landmarks ! i) L_EYE) = 0
                \<and> getHeight (map (\<lambda>i. landmarks ! i) R_EYE) = 0
                \<longrightarrow> calculateSymmetry (map (\<lambda>i. landmarks ! i) L_EYE)
                                       (map (\<lambda>i. landmarks ! i) R_EYE) = NaN
                    \<and> eye (samplesRef st') = eye (samplesRef st) @ [NaN])
           \<and> (getHeight (map (\<lambda>i. landmarks ! i) L_BROW) = 0
                \<and> getHeight (map (\<lambda>i. landmarks ! i) R_BROW) = 0
                \<longrightarrow> calculateSymmetry (map (\<lambda>i. landmarks ! i) L_BROW)
                                       (map (\<lambda>i. landmarks ! i) R_BROW) = NaN
                    \<and> brow (samplesRef st') = brow (samplesRef st) @ [NaN])
           \<and> (calculateDistance (landmarks ! 61) (landmarks ! 13) = 0
                \<and> calculateDistance (landmarks ! 291) (landmarks ! 13) = 0
                \<longrightarrow> mouth (samplesRef st') = mouth (samplesRef st) @ [NaN])"
proof -
  from onResults_scanning[OF assms(1-3), of others] assms(4)
  obtain st' where run: "onResults True (landmarks # others) st = Inr st'"
    and pose: "isPoseValid st'"
    and win: "samplesRef st' =
                  \<lparr>eye = eye (samplesRef st) @
                          [calculateSymmetry (map (\<lambda>i. landmarks ! i) L_EYE)
                                             (map (\<lambda>i. landmarks ! i) R_EYE)],
                   mouth = mouth (samplesRef st) @
                          [symmetryRatio (calculateDistance (landmarks ! 61) (landmarks ! 13))
                                         (calculateDistance (landmarks ! 291) (landmarks ! 13))],
                   brow = brow (samplesRef st) @
                          [calculateSymmetry (map (\<lambda>i. landmarks ! i) L_BROW)
                                             (map (\<lambda>i. landmarks ! i) R_BROW)]\<rparr>"
    by auto
  show ?thesis
    by (rule exI[of _ st'])
       (simp add: run pose win calculateSymmetry_def Let_def symmetryRatio_zero)
qed

theorem onResults_zero_measures_admitted_witness:
  "454 < length flatFrame \<and> poseValid flatFrame
   \<and> isScanning (scanningMirror\<lparr>samplesRef := \<lparr>eye = [Num 97], mouth = [Num 95], brow = [Num 99]\<rparr>\<rparr>)
   \<and> (\<exists>st'. onResults True [flatFrame]
              (scanningMirror\<lparr>samplesRef := \<lparr>eye = [Num 97], mouth = [Num 95], brow = [Num 99]\<rparr>\<rparr>)
             = Inr st'
           \<and> isPoseValid st'
           \<and> eye (samplesRef st') = [Num 97, NaN]
           \<and> brow (samplesRef st') = [Num 99, NaN]
           \<and> mouth (samplesRef st') = [Num 95, NaN])"
proof -
  let ?st = "scanningMirror\<lparr>samplesRef := \<lparr>eye = [Num 97], mouth = [Num 95], brow = [Num 99]\<rparr>\<rparr>"
  have len: "454 < length flatFrame" by (simp add: flatFrame_length)
  have light: "lightingStatus ?st = LIGHT_OK" and scan: "isScanning ?st"
    by (simp_all add: scanningMirror_def initialMirror_def)
  have pose: "poseValid flatFrame"
    by (simp add: poseValid_def flatFrame_nth calculateDistance_def sqrt_quarter
        power2_eq_square)
  have zeros:
    "getHeight (map (\<lambda>i. flatFrame ! i) L_EYE) = 0"
    "getHeight (map (\<lambda>i. flatFrame ! i) R_EYE) = 0"
    "getHeight (map (\<lambda>i. flatFrame ! i) L_BROW) = 0"
    "getHeight (map (\<lambda>i. flatFrame ! i) R_BROW) = 0"
    "calculateDistance (flatFrame ! 61) (flatFrame ! 13) = 0"
    "calculateDistance (flatFrame ! 291) (flatFrame ! 13) = 0"
    by (simp_all add: getHeight_def calculateDistance_def flatFrame_nth
        L_EYE_def R_EYE_def L_BROW_def R_BROW_def)
  have win: "eye (samplesRef ?st) = [Num 97]" "brow (samplesRef ?st) = [Num 99]"
    "mouth (samplesRef ?st) = [Num 95]"
    by simp_all
  from onResults_zero_measures_admitted[OF len light scan pose, of "[]"] zeros win
  obtain st' where "onResults True [flatFrame] ?st = Inr st'" "isPoseValid st'"
    "eye (samplesRef st') = [Num 97, NaN]" "brow (samplesRef st') = [Num 99, NaN]"
    "mouth (samplesRef st') = [Num 95, NaN]"
    by auto
  with len pose scan show ?thesis by blast
qed


text \<open>
  Claim C2 says that in calibration mode each of the three modules returns a fixed score
  of 100 together with a raw payload. The mirror module does; the voice and the touch
  module return the fixed score 100 without any raw payload, so the calibration wizard
  stores no baseline for them.
\<close>

theorem calibration_raw_payloads:
  "handleReadingFinish CALIBRATION 100 [] 85 1000 2000 =
     \<lparr>persisted = None,
      completed = \<lparr>score = 100, details = BaselineRecorded, timestamp = 1000, raw = None\<rparr>\<rparr>
   \<and> analyze CALIBRATION 90 80 [] 1000 2000 =
     \<lparr>persisted = None,
      completed = \<lparr>score = 100, details = BaselineRecorded, timestamp = 1000, raw = None\<rparr>\<rparr>
   \<and> snd (finishScan CALIBRATION None None 1000 2000
            (scanningMirror\<lparr>samplesRef := \<lparr>eye = [Num 97], mouth = [Num 95], brow = [Num 99]\<rparr>\<rparr>)) =
     \<lparr>persisted = None,
      completed = \<lparr>score = Num 100, details = BaselineRecorded, timestamp = 1000,
                   raw = Some \<lparr>eyeSym = Num 97, mouthSym = Num 95, browSym = Num 99\<rparr>\<rparr>\<rparr>"
  by (simp add: handleReadingFinish_def analyze_def finishScan_def calcAvg_def js_div_def Let_def)


section \<open>Properties of the spiral test\<close>



text \<open>
  A recorded error lies between 0 and 999 (the loop starts from 999 and only takes
  smaller absolute values), so the squares in \<open>finishTest\<close> stay far from overflow.
\<close>

lemma foldl_invariant:
  assumes "I a" "\<And>a x. I a \<Longrightarrow> I (f a x)"
  shows "I (foldl f a xs)"
  using assms(1) by (induction xs arbitrary: a) (simp_all add: assms(2))

lemma calculateError_range: "0 \<le> calculateError center x y \<and> calculateError center x y \<le> 999"
  unfolding calculateError_def Let_def
  by (rule foldl_invariant[where I = "\<lambda>m. 0 \<le> m \<and> m \<le> (999::real)"]) auto



text \<open>Distances against the finish distance 130.\<close>

lemma sqrt_130: "sqrt 16900 = 130"
  by (rule real_sqrt_unique) simp_all


lemma sqrt_ge_130: "16900 \<le> x \<Longrightarrow> 130 \<le> sqrt x"
  using real_sqrt_le_mono[of 16900 x] by (simp only: sqrt_130)










text \<open>
  A capture around the centre of the canvas does not get that far: its first move is
  measured from \<open>(0, 0)\<close>, lies beyond the finish distance and ends the test with a score.
\<close>

lemma capture_at_canvas_centre_ends_at_first_move:
  "\<exists>st' sc. runEvents rnd (mounted (170, 170), []) [PointerDown 170 170, PointerMove 180 170]
              = ((st', (0, 0)), [sc]) \<and> \<not> isDrawing st'"
proof -
  have d0: "distFromCenter (170, 170) 170 170 = 0" by (simp add: distFromCenter_def)
  have d1: "130 \<le> distFromCenter (0, 0) 180 170"
    by (simp add: distFromCenter_def sqrt_ge_130)
  show ?thesis
    using d1
    by (simp add: runEvents_def mounted_def rendered_def handleStart_def handleMove_def
        finishTest_def initialSpiral_def d0 START_ZONE_RADIUS_def MAX_RADIUS_def Let_def)
qed

end
